theory Spec2Isabelle
  imports Main "HOL-Library.AList"
begin

section \<open>Python strings\<close>

text \<open>
  A Python \<open>str\<close> is a sequence of Unicode code points. It is modelled as a HOL
  \<open>string\<close> whose characters are read as the code points U+0000 to U+00FF, so the
  length of the list is Python's \<open>len\<close>. The methods of \<open>str\<close> that
  \<^verbatim>\<open>hw01.py\<close> calls are library code; they are given here by their values on
  that range, following the Unicode character database as CPython reads it:
  \<^item> \<open>str.isdigit\<close>: Numeric_Type Digit or Decimal, that is \<open>0\<close> to \<open>9\<close> and the
    superscript digits U+00B2, U+00B3 and U+00B9;
  \<^item> \<open>str.isalpha\<close>: general category L*, that is the ASCII letters, U+00AA, U+00B5,
    U+00BA, and U+00C0 to U+00FF without the two signs U+00D7 and U+00F7;
  \<^item> \<open>str.lower\<close>: the upper-case letters \<open>A\<close> to \<open>Z\<close>, U+00C0 to U+00D6 and U+00D8 to
    U+00DE move up by 32, every other character stays;
  \<^item> white space (\<open>str.split\<close>, \<open>str.strip\<close>): U+0009 to U+000D, U+001C to U+0020,
    U+0085 and U+00A0.
\<close>

definition ord :: "char \<Rightarrow> nat" where
  "ord c = of_char c"

definition ascii_digit :: "char \<Rightarrow> bool" where
  "ascii_digit c = (48 \<le> ord c \<and> ord c \<le> 57)"

definition isdigit_char :: "char \<Rightarrow> bool" where
  "isdigit_char c = (ascii_digit c \<or> ord c = 178 \<or> ord c = 179 \<or> ord c = 185)"

definition isalpha_char :: "char \<Rightarrow> bool" where
  "isalpha_char c =
     ((65 \<le> ord c \<and> ord c \<le> 90) \<or> (97 \<le> ord c \<and> ord c \<le> 122)
      \<or> ord c = 170 \<or> ord c = 181 \<or> ord c = 186
      \<or> (192 \<le> ord c \<and> ord c \<noteq> 215 \<and> ord c \<noteq> 247))"

definition isupper_char :: "char \<Rightarrow> bool" where
  "isupper_char c =
     ((65 \<le> ord c \<and> ord c \<le> 90) \<or> (192 \<le> ord c \<and> ord c \<le> 214)
      \<or> (216 \<le> ord c \<and> ord c \<le> 222))"

definition lower_char :: "char \<Rightarrow> char" where
  "lower_char c = (if isupper_char c then char_of (ord c + 32) else c)"

definition isspace_char :: "char \<Rightarrow> bool" where
  "isspace_char c =
     ((9 \<le> ord c \<and> ord c \<le> 13) \<or> (28 \<le> ord c \<and> ord c \<le> 32)
      \<or> ord c = 133 \<or> ord c = 160)"

text \<open>\<open>s.isdigit()\<close> and \<open>s.isalpha()\<close> are false on the empty string.\<close>

definition str_isdigit :: "string \<Rightarrow> bool" where
  "str_isdigit s = (s \<noteq> [] \<and> list_all isdigit_char s)"

definition str_isalpha :: "string \<Rightarrow> bool" where
  "str_isalpha s = (s \<noteq> [] \<and> list_all isalpha_char s)"

definition str_lower :: "string \<Rightarrow> string" where
  "str_lower s = map lower_char s"

definition str_strip :: "string \<Rightarrow> string" where
  "str_strip s = rev (dropWhile isspace_char (rev (dropWhile isspace_char s)))"

text \<open>
  \<open>s.split()\<close> with no separator: the maximal runs of characters that are not white
  space, in order. \<open>tok\<close> is the run being read.
\<close>

fun split_acc :: "string \<Rightarrow> string \<Rightarrow> string list" where
  "split_acc tok [] = (if tok = [] then [] else [tok])"
| "split_acc tok (c # cs) =
     (if isspace_char c
      then (if tok = [] then split_acc [] cs else tok # split_acc [] cs)
      else split_acc (tok @ [c]) cs)"

definition str_split :: "string \<Rightarrow> string list" where
  "str_split s = split_acc [] s"

text \<open>\<open>sep.join(xs)\<close>.\<close>

fun str_join :: "string \<Rightarrow> string list \<Rightarrow> string" where
  "str_join sep [] = []"
| "str_join sep [x] = x"
| "str_join sep (x # y # ys) = x @ sep @ str_join sep (y # ys)"

text \<open>\<open>str(i)\<close> for an index \<open>i\<close> of \<open>enumerate\<close>: the decimal numeral.\<close>

fun str_nat :: "nat \<Rightarrow> string" where
  "str_nat n =
     (if n < 10 then [char_of (48 + n)]
      else str_nat (n div 10) @ [char_of (48 + n mod 10)])"

declare str_nat.simps [simp del]

section \<open>Exceptions\<close>

text \<open>
  The exceptions the program can raise. \<open>ValueError\<close> carries its message, \<open>KeyError\<close>
  the missing key. \<open>AttributeError\<close> is what an attribute read on \<open>None\<close> raises,
  \<open>EOFError\<close> what \<open>input()\<close> raises at the end of the input.
\<close>

datatype exn =
    ValueError string
  | KeyError string
  | IndexError
  | AttributeError
  | EOFError

section \<open>Fields\<close>

text \<open>
  \<open>Field\<close> has the one attribute \<open>value\<close> (here \<open>fvalue\<close>); \<open>Name\<close> and \<open>Phone\<close>
  are subclasses that add a check to the constructor and nothing to the object.
\<close>

record Field =
  fvalue :: string

type_synonym Name = Field
type_synonym Phone = Field

definition Field_str :: "Field \<Rightarrow> string" where
  "Field_str f = fvalue f"

definition Name_init :: "string \<Rightarrow> exn + Name" where
  "Name_init v =
     (let v' = str_lower v in
      if \<not> str_isalpha v'
      then Inl (ValueError ''Name must contain only alphabetic characters.'')
      else Inr \<lparr>fvalue = v'\<rparr>)"

definition Phone_init :: "string \<Rightarrow> exn + Phone" where
  "Phone_init v =
     (if \<not> str_isdigit v \<or> length v \<noteq> 10
      then Inl (ValueError ''Phone number must contain 10 digits.'')
      else Inr \<lparr>fvalue = v\<rparr>)"

section \<open>Record\<close>

text \<open>
  A contact. Its methods mutate the object; in the model a method takes the record and
  returns the exception it raised, if any, with the record as the call leaves it.
\<close>

record Record =
  name :: Name
  phones :: "Phone list"

definition Record_init :: "string \<Rightarrow> exn + Record" where
  "Record_init nm =
     (case Name_init nm of
        Inl e \<Rightarrow> Inl e
      | Inr n \<Rightarrow> Inr \<lparr>name = n, phones = []\<rparr>)"

definition add_phone :: "Record \<Rightarrow> string \<Rightarrow> exn option \<times> Record" where
  "add_phone r phone =
     (case Phone_init phone of
        Inl e \<Rightarrow> (Some e, r)
      | Inr p \<Rightarrow> (None, r\<lparr>phones := phones r @ [p]\<rparr>))"

text \<open>
  The \<open>for\<close> loop of \<open>remove_phone\<close> and \<open>find_phone\<close>: the first phone whose value
  is the one looked for.
\<close>

fun first_phone :: "string \<Rightarrow> Phone list \<Rightarrow> Phone option" where
  "first_phone phone [] = None"
| "first_phone phone (p # ps) =
     (if fvalue p = phone then Some p else first_phone phone ps)"

text \<open>
  \<open>self.phones.remove(p)\<close> deletes the first element equal to \<open>p\<close>. \<open>Phone\<close> defines
  no \<open>__eq__\<close>, so Python compares by identity and deletes the object the loop stands on;
  that is the first phone with the value, which \<open>remove1\<close> deletes here.
\<close>

definition remove_phone :: "Record \<Rightarrow> string \<Rightarrow> exn option \<times> Record" where
  "remove_phone r phone =
     (case first_phone phone (phones r) of
        Some p \<Rightarrow> (None, r\<lparr>phones := remove1 p (phones r)\<rparr>)
      | None \<Rightarrow> (Some (ValueError ''Phone number not found''), r))"

text \<open>
  The loop of \<open>edit_phone\<close>: the first phone with the old value gets the new value
  assigned to its attribute, with no check. \<open>None\<close> when the loop runs to its end.
\<close>

fun edit_loop :: "string \<Rightarrow> string \<Rightarrow> Phone list \<Rightarrow> Phone list option" where
  "edit_loop old_phone new_phone [] = None"
| "edit_loop old_phone new_phone (p # ps) =
     (if fvalue p = old_phone then Some (p\<lparr>fvalue := new_phone\<rparr> # ps)
      else map_option ((#) p) (edit_loop old_phone new_phone ps))"

definition edit_phone :: "Record \<Rightarrow> string \<Rightarrow> string \<Rightarrow> exn option \<times> Record" where
  "edit_phone r old_phone new_phone =
     (case edit_loop old_phone new_phone (phones r) of
        Some ps \<Rightarrow> (None, r\<lparr>phones := ps\<rparr>)
      | None \<Rightarrow> (Some (ValueError ''Phone number not found''), r))"

datatype found = All_phones "string list" | One_phone string

definition find_phone :: "Record \<Rightarrow> string option \<Rightarrow> exn + found" where
  "find_phone r phone =
     (case phone of
        None \<Rightarrow> Inr (All_phones (map fvalue (phones r)))
      | Some ph \<Rightarrow>
          (case first_phone ph (phones r) of
             Some p \<Rightarrow> Inr (One_phone (fvalue p))
           | None \<Rightarrow> Inl (ValueError ''Phone number not found'')))"

definition Record_str :: "Record \<Rightarrow> string" where
  "Record_str r =
     (let num_phones = length (phones r);
          phone_word = (if num_phones = 1 then ''phone'' else ''phones'')
      in ''Contact name: '' @ fvalue (name r) @ '', '' @ phone_word @ '': ''
         @ str_join '', '' (map Field_str (phones r)))"

section \<open>AddressBook\<close>

text \<open>
  The \<open>UserDict\<close>: its \<open>data\<close> is a dictionary from strings to records, kept as an
  association list in insertion order. Assigning to a key replaces the entry in place or
  appends a new one, as a Python dictionary does. The method \<open>find\<close> is
  \<open>find_record\<close> here, the name \<open>find\<close> being the list library's.
\<close>

type_synonym AddressBook = "(string \<times> Record) list"

definition add_record :: "AddressBook \<Rightarrow> Record \<Rightarrow> AddressBook" where
  "add_record data record = AList.update (fvalue (name record)) record data"

definition find_record :: "AddressBook \<Rightarrow> string \<Rightarrow> Record option" where
  "find_record data nm = map_of data nm"

definition delete :: "AddressBook \<Rightarrow> string \<Rightarrow> exn option \<times> AddressBook" where
  "delete data nm =
     (case map_of data nm of
        None \<Rightarrow> (Some (KeyError nm), data)
      | Some r \<Rightarrow> (None, AList.delete nm data))"

section \<open>The session: address book, standard input and standard output\<close>

text \<open>
  \<open>print(s)\<close> writes one entry to standard output; \<open>input(prompt)\<close> writes the
  prompt and reads the next line, or raises \<open>EOFError\<close> when no line is left. The
  address book is the one object \<open>main\<close> creates and hands to every handler; a record a
  handler changes is changed inside the book, under the key it was found at.
\<close>

datatype event = Printed string | Prompted string

record world =
  book :: AddressBook
  stdin :: "string list"
  stdout :: "event list"

definition print :: "string \<Rightarrow> world \<Rightarrow> world" where
  "print s w = w\<lparr>stdout := stdout w @ [Printed s]\<rparr>"

definition input :: "string \<Rightarrow> world \<Rightarrow> (exn + string) \<times> world" where
  "input prompt w =
     (let w' = w\<lparr>stdout := stdout w @ [Prompted prompt]\<rparr> in
      case stdin w of
        [] \<Rightarrow> (Inl EOFError, w')
      | l # ls \<Rightarrow> (Inr l, w'\<lparr>stdin := ls\<rparr>))"

subsection \<open>The decorator \<open>input_error\<close>\<close>

text \<open>The \<open>except\<close> clauses, in the order of the source.\<close>

fun error_message :: "exn \<Rightarrow> string" where
  "error_message (KeyError k) = ''Enter name.''"
| "error_message (ValueError e) = e"
| "error_message IndexError = ''Enter the argument for the command.''"
| "error_message _ = ''Invalid command.''"

definition input_error ::
  "(world \<Rightarrow> (exn + string) \<times> world) \<Rightarrow> world \<Rightarrow> string \<times> world" where
  "input_error func w =
     (case func w of
        (Inr s, w') \<Rightarrow> (s, w')
      | (Inl e, w') \<Rightarrow> (error_message e, w'))"

definition parse_input :: "string \<Rightarrow> exn + (string \<times> string list)" where
  "parse_input user_input =
     (let parts = str_split user_input in
      case parts of
        [] \<Rightarrow> Inl IndexError
      | p # ps \<Rightarrow> Inr (str_lower (str_strip p), ps))"

subsection \<open>The command handlers\<close>

text \<open>The loop \<open>for phone in phones: record.add_phone(phone)\<close>; it stops at the first
  exception and keeps what it has appended.\<close>

fun add_phones :: "Record \<Rightarrow> string list \<Rightarrow> exn option \<times> Record" where
  "add_phones record [] = (None, record)"
| "add_phones record (phone # rest) =
     (case add_phone record phone of
        (Some e, record') \<Rightarrow> (Some e, record')
      | (None, record') \<Rightarrow> add_phones record' rest)"

definition add_contact_body :: "string list \<Rightarrow> world \<Rightarrow> (exn + string) \<times> world" where
  "add_contact_body args w =
     (if length args < 2
      then (Inl (ValueError
              ''Give me name and at least one phone number, separated by spaces.''), w)
      else
        let nm = args ! 0; phs = drop 1 args in
        case find_record (book w) nm of
          Some record \<Rightarrow>
            (case add_phones record phs of
               (Some e, record') \<Rightarrow> (Inl e, w\<lparr>book := AList.update nm record' (book w)\<rparr>)
             | (None, record') \<Rightarrow>
                 (Inr (''Phone number(s) added to contact '' @ [CHR 0x27] @ nm @ [CHR 0x27]
                       @ ''.''),
                  w\<lparr>book := AList.update nm record' (book w)\<rparr>))
        | None \<Rightarrow>
            (case Record_init nm of
               Inl e \<Rightarrow> (Inl e, w)
             | Inr record \<Rightarrow>
                 (case add_phones record phs of
                    (Some e, record') \<Rightarrow> (Inl e, w)
                  | (None, record') \<Rightarrow>
                      (Inr ''Contact added.'', w\<lparr>book := add_record (book w) record'\<rparr>))))"

definition add_contact :: "string list \<Rightarrow> world \<Rightarrow> string \<times> world" where
  "add_contact args = input_error (add_contact_body args)"

text \<open>
  \<open>change_contact\<close>. With no record under the name, \<open>find\<close> gives \<open>None\<close> and
  \<open>record.phones\<close> raises \<open>AttributeError\<close>. \<open>available_phones\<close> is the dictionary
  from \<open>str(i)\<close> to the \<open>i\<close>-th phone. Inside the \<open>try\<close>, only a \<open>KeyError\<close> (the
  chosen key is not in the dictionary) is caught; \<open>EOFError\<close> from \<open>input\<close> and
  \<open>ValueError\<close> from \<open>remove_phone\<close> and \<open>add_phone\<close> leave the function.
\<close>

definition available_phones :: "Record \<Rightarrow> (string \<times> Phone) list" where
  "available_phones record =
     zip (map str_nat [0..<length (phones record)]) (phones record)"

text \<open>The loop \<open>for i, phone in available_phones.items(): print(f"{i}: {phone}")\<close>.\<close>

fun print_available :: "(string \<times> Phone) list \<Rightarrow> world \<Rightarrow> world" where
  "print_available [] w = w"
| "print_available ((i, phone) # rest) w =
     print_available rest (print (i @ '': '' @ Field_str phone) w)"

definition change_contact_body :: "string list \<Rightarrow> world \<Rightarrow> (exn + string) \<times> world" where
  "change_contact_body args w =
     (if length args < 2
      then (Inl (ValueError ''Please provide both name and new phone number.''), w)
      else if length args > 2
      then (Inl (ValueError
              ''Please provide the contact name and the new phone number only.''), w)
      else
        let nm = args ! 0; new_phone = args ! 1 in
        case find_record (book w) nm of
          None \<Rightarrow> (Inl AttributeError, w)
        | Some record \<Rightarrow>
            let avail = available_phones record;
                w1 = print (''Available phone numbers for contact '' @ nm @ '':'') w;
                w2 = print_available avail w1
            in
            case input ''Enter the number of the phone you want to change: '' w2 of
              (Inl e, w3) \<Rightarrow> (Inl e, w3)
            | (Inr chosen_phone, w3) \<Rightarrow>
                (case map_of avail chosen_phone of
                   None \<Rightarrow> (Inr ''Invalid phone number. Please enter a valid number.'', w3)
                 | Some p \<Rightarrow>
                     let old_phone = fvalue p in
                     case remove_phone record old_phone of
                       (Some e, r1) \<Rightarrow> (Inl e, w3\<lparr>book := AList.update nm r1 (book w3)\<rparr>)
                     | (None, r1) \<Rightarrow>
                         (case add_phone r1 new_phone of
                            (Some e, r2) \<Rightarrow>
                              (Inl e, w3\<lparr>book := AList.update nm r2 (book w3)\<rparr>)
                          | (None, r2) \<Rightarrow>
                              (Inr ''Contact updated.'',
                               w3\<lparr>book := AList.update nm r2 (book w3)\<rparr>))))"

definition change_contact :: "string list \<Rightarrow> world \<Rightarrow> string \<times> world" where
  "change_contact args = input_error (change_contact_body args)"

text \<open>
  \<open>show_phone\<close> calls \<open>find_phone()\<close> with no argument and takes \<open>len\<close> and
  \<open>', '.join\<close> of what it returns: the list of values. (Of a single string Python
  would take the characters.)
\<close>

fun found_items :: "found \<Rightarrow> string list" where
  "found_items (All_phones vs) = vs"
| "found_items (One_phone v) = map (\<lambda>c. [c]) v"

definition show_phone_body :: "string list \<Rightarrow> world \<Rightarrow> (exn + string) \<times> world" where
  "show_phone_body args w =
     (if length args = 0
      then (Inr (''Please provide the name of the contact or type '' @ [CHR 0x27]
                 @ ''phone <contact_name>'' @ [CHR 0x27] @ ''.''), w)
      else
        let nm = args ! 0 in
        case find_record (book w) nm of
          Some record \<Rightarrow>
            (case find_phone record None of
               Inl e \<Rightarrow> (Inl e, w)
             | Inr res \<Rightarrow>
                 let phs = found_items res in
                 if length phs = 1
                 then (Inr (''The phone number for contact '' @ [CHR 0x27] @ nm @ [CHR 0x27]
                            @ '' is: '' @ str_join '', '' phs @ ''.''), w)
                 else (Inr (''The phone numbers for contact '' @ [CHR 0x27] @ nm @ [CHR 0x27]
                            @ '' are: '' @ str_join '', '' phs @ ''.''), w))
        | None \<Rightarrow>
            (Inr (''Contact '' @ [CHR 0x27] @ nm @ [CHR 0x27] @ '' not found.''), w))"

definition show_phone :: "string list \<Rightarrow> world \<Rightarrow> string \<times> world" where
  "show_phone args = input_error (show_phone_body args)"

definition show_all_contacts_body :: "world \<Rightarrow> (exn + string) \<times> world" where
  "show_all_contacts_body w =
     (if book w \<noteq> []
      then (Inr (str_join [CHR 0x0A] (map (\<lambda>kv. Record_str (snd kv)) (book w))), w)
      else (Inr ''No contacts found.'', w))"

definition show_all_contacts :: "world \<Rightarrow> string \<times> world" where
  "show_all_contacts = input_error show_all_contacts_body"

definition process_input_body ::
  "string \<Rightarrow> string list \<Rightarrow> world \<Rightarrow> (exn + string) \<times> world" where
  "process_input_body command args w =
     (if command = ''hello'' then (Inr ''How can I help you?'', w)
      else if command = ''add'' then (case add_contact args w of (s, w') \<Rightarrow> (Inr s, w'))
      else if command = ''change'' then
        (case change_contact args w of (s, w') \<Rightarrow> (Inr s, w'))
      else if command = ''phone'' then (case show_phone args w of (s, w') \<Rightarrow> (Inr s, w'))
      else if command = ''all'' then (case show_all_contacts w of (s, w') \<Rightarrow> (Inr s, w'))
      else (Inr ''Invalid command.'', w))"

definition process_input :: "string \<Rightarrow> string list \<Rightarrow> world \<Rightarrow> string \<times> world" where
  "process_input command args = input_error (process_input_body command args)"

subsection \<open>The main loop\<close>

text \<open>
  Each turn of \<open>while True\<close> reads a line, and a handler reads at most one more, so
  the loop ends on every finite input: with \<open>break\<close>, or with an exception that leaves
  the loop. The lemmas below bound what a handler takes from the input; the
  termination proof of \<open>main_loop\<close> rests on them.
\<close>

lemma stdin_print: "stdin (print s w) = stdin w"
  by (simp add: print_def)

lemma book_print: "book (print s w) = book w"
  by (simp add: print_def)

lemma stdin_print_available: "stdin (print_available xs w) = stdin w"
  by (induction xs w rule: print_available.induct) (simp_all add: stdin_print)

lemma book_print_available: "book (print_available xs w) = book w"
  by (induction xs w rule: print_available.induct) (simp_all add: book_print)

lemma input_cases:
  "input prompt w = (res, w') \<Longrightarrow>
     book w' = book w \<and>
     ((res = Inl EOFError \<and> stdin w = [] \<and> stdin w' = []) \<or>
      (\<exists>l. res = Inr l \<and> stdin w = l # stdin w'))"
  by (auto simp: input_def Let_def split: list.splits)

lemma stdin_input:
  "input p v = (res, v') \<Longrightarrow> length (stdin v') \<le> length (stdin v)"
  by (auto simp: input_def Let_def split: list.splits)

lemma stdin_add_contact: "stdin (snd (add_contact args w)) = stdin w"
  by (auto simp: add_contact_def input_error_def add_contact_body_def Let_def
      split: option.splits sum.splits prod.splits)

lemma stdin_show_phone: "stdin (snd (show_phone args w)) = stdin w"
  by (auto simp: show_phone_def input_error_def show_phone_body_def Let_def
      split: option.splits sum.splits prod.splits)

lemma stdin_show_all_contacts: "stdin (snd (show_all_contacts w)) = stdin w"
  by (auto simp: show_all_contacts_def input_error_def show_all_contacts_body_def)

lemma stdin_change_contact_body:
  "length (stdin (snd (change_contact_body args w))) \<le> length (stdin w)"
  by (auto simp: change_contact_body_def Let_def stdin_print_available stdin_print
      split: option.splits sum.splits prod.splits dest!: stdin_input)

lemma stdin_change_contact:
  "length (stdin (snd (change_contact args w))) \<le> length (stdin w)"
  using stdin_change_contact_body [of args w]
  by (auto simp: change_contact_def input_error_def split: prod.splits sum.splits)

lemma stdin_process_input:
  "length (stdin (snd (process_input command args w))) \<le> length (stdin w)"
  using stdin_add_contact [of args w] stdin_change_contact [of args w]
    stdin_show_phone [of args w] stdin_show_all_contacts [of w]
  by (auto simp: process_input_def input_error_def process_input_body_def
      split: prod.splits sum.splits)

text \<open>
  The body of \<open>while True\<close>. The result is \<open>None\<close> when the loop is left by
  \<open>break\<close>, and the exception when one is raised inside the loop: by \<open>input\<close>, or by
  \<open>parse_input\<close>, whose \<open>parts[0]\<close> is outside every handler.
\<close>

function main_loop :: "world \<Rightarrow> exn option \<times> world" where
  "main_loop w =
     (case input ''Enter a command: '' w of
        (Inl e, w1) \<Rightarrow> (Some e, w1)
      | (Inr user_input, w1) \<Rightarrow>
          (case parse_input user_input of
             Inl e \<Rightarrow> (Some e, w1)
           | Inr (command, args) \<Rightarrow>
               if command \<in> set [''close'', ''exit'']
               then (None, print ''Good bye!'' w1)
               else (case process_input command args w1 of
                       (out, w2) \<Rightarrow> main_loop (print out w2))))"
  by pat_completeness auto
termination
proof (relation "measure (\<lambda>w. length (stdin w))", goal_cases)
  case 1
  show ?case by simp
next
  case (2 w res w1 user_input parsed command args out w2)
  from 2(1)[symmetric] 2(2) have "length (stdin w1) < length (stdin w)"
    by (auto dest: input_cases)
  moreover from 2(6)[symmetric] have "length (stdin w2) \<le> length (stdin w1)"
    using stdin_process_input [of command args w1] by simp
  ultimately show ?case by (simp add: stdin_print)
qed

declare main_loop.simps [simp del]

text \<open>
  \<open>main\<close> under its decorator: \<open>None\<close> when the body returns after \<open>break\<close>, and the
  decorator's message, returned and never printed, when an exception left the loop.
  The argument is the lines standard input holds.
\<close>

definition main :: "string list \<Rightarrow> string option \<times> world" where
  "main lines =
     (let address_book = [];
          w = print ''Welcome to the assistant bot!''
                \<lparr>book = address_book, stdin = lines, stdout = []\<rparr>
      in case main_loop w of
           (None, w') \<Rightarrow> (None, w')
         | (Some e, w') \<Rightarrow> (Some (error_message e), w'))"

subsection \<open>Predicates used in the statements\<close>

text \<open>
  A record is well formed when every phone it stores is one the constructor of
  \<open>Phone\<close> would have made from the stored value.
\<close>

definition phones_ok :: "Record \<Rightarrow> bool" where
  "phones_ok r = list_all (\<lambda>p. Phone_init (fvalue p) = Inr p) (phones r)"

text \<open>The number a decimal numeral stands for; the inverse of \<open>str_nat\<close>.\<close>

definition digits_value :: "string \<Rightarrow> nat" where
  "digits_value s = foldl (\<lambda>a c. 10 * a + (ord c - 48)) 0 s"

text \<open>A line on which the loop breaks: it has a first token, and the token,
  lower-cased, is \<open>close\<close> or \<open>exit\<close>.\<close>

definition is_exit_line :: "string \<Rightarrow> bool" where
  "is_exit_line l =
     (case parse_input l of
        Inl e \<Rightarrow> False
      | Inr (command, args) \<Rightarrow> command \<in> set [''close'', ''exit''])"

section \<open>Field validation\<close>

lemma ord_lower_char:
  "ord (lower_char c) = (if isupper_char c then ord c + 32 else ord c)"
  by (auto simp: lower_char_def ord_def isupper_char_def)

lemma isalpha_lower_char_iff: "isalpha_char (lower_char c) \<longleftrightarrow> isalpha_char c"
  by (auto simp: isalpha_char_def ord_lower_char isupper_char_def)

lemma lower_char_idem: "lower_char (lower_char c) = lower_char c"
proof (cases "isupper_char c")
  case True
  then have "\<not> isupper_char (lower_char c)"
    by (auto simp: isupper_char_def ord_lower_char)
  then show ?thesis by (simp add: lower_char_def)
next
  case False
  then show ?thesis by (simp add: lower_char_def)
qed

lemma str_lower_idem: "str_lower (str_lower s) = str_lower s"
  by (simp add: str_lower_def lower_char_idem)

lemma isalpha_str_lower_iff:
  "list_all isalpha_char (str_lower s) \<longleftrightarrow> list_all isalpha_char s"
  by (simp add: str_lower_def list_all_iff isalpha_lower_char_iff)

lemma Name_init_eq:
  "Name_init raw =
     (if raw \<noteq> [] \<and> list_all isalpha_char raw then Inr \<lparr>fvalue = str_lower raw\<rparr>
      else Inl (ValueError ''Name must contain only alphabetic characters.''))"
  using isalpha_str_lower_iff [of raw]
  by (auto simp: Name_init_def Let_def str_isalpha_def str_lower_def)

text \<open>
  C7. For every string, \<open>Name\<close> succeeds exactly when the string is not empty and
  all its characters are alphabetic, and then stores the lower-cased string; on every
  other string it raises \<open>ValueError\<close> (the spec's InvalidFormat). The result depends
  on the lower-cased string only: two strings that differ in case alone give the same
  name, and a name built from an already lower-cased string is the same again.
  \<open>Name("Bob")\<close> and \<open>Name("BOB")\<close> both succeed and both store \<open>"bob"\<close>.
\<close>

theorem C7_Name_init:
  "Name_init raw =
     (if raw \<noteq> [] \<and> list_all isalpha_char raw then Inr \<lparr>fvalue = str_lower raw\<rparr>
      else Inl (ValueError ''Name must contain only alphabetic characters.''))
   \<and> (str_lower raw = str_lower raw' \<longrightarrow> Name_init raw = Name_init raw')
   \<and> Name_init (str_lower raw) = Name_init raw
   \<and> Name_init ''Bob'' = Inr \<lparr>fvalue = ''bob''\<rparr>
   \<and> Name_init ''BOB'' = Inr \<lparr>fvalue = ''bob''\<rparr>"
proof -
  have same: "Name_init s = Name_init t" if "str_lower s = str_lower t" for s t
    using that by (simp add: Name_init_def Let_def)
  have idem: "Name_init (str_lower raw) = Name_init raw"
    by (rule same) (rule str_lower_idem)
  have bob: "Name_init ''Bob'' = Inr \<lparr>fvalue = ''bob''\<rparr>"
    by code_simp
  have BOB: "Name_init ''BOB'' = Inr \<lparr>fvalue = ''bob''\<rparr>"
    by code_simp
  from Name_init_eq [of raw] same [of raw raw'] idem bob BOB show ?thesis by blast
qed

theorem C7_Name_init_witness:
  "Name_init ''john'' = Inr \<lparr>fvalue = ''john''\<rparr>
   \<and> Name_init ''Ann'' = Name_init ''aNN''
   \<and> Name_init ''Ann'' = Inr \<lparr>fvalue = ''ann''\<rparr>
   \<and> Name_init ''b0b'' = Inl (ValueError ''Name must contain only alphabetic characters.'')
   \<and> Name_init [] = Inl (ValueError ''Name must contain only alphabetic characters.'')"
proof -
  have john: "''john'' \<noteq> [] \<and> list_all isalpha_char ''john''" "str_lower ''john'' = ''john''"
    by code_simp+
  have ann: "''Ann'' \<noteq> [] \<and> list_all isalpha_char ''Ann''" "str_lower ''Ann'' = ''ann''"
    "str_lower ''Ann'' = str_lower ''aNN''"
    by code_simp+
  have b0b: "\<not> list_all isalpha_char ''b0b''" by code_simp
  have 1: "Name_init ''john'' = Inr \<lparr>fvalue = ''john''\<rparr>"
    using C7_Name_init [of "''john''"] john by simp
  have 2: "Name_init ''Ann'' = Name_init ''aNN''"
    using C7_Name_init [of "''Ann''" "''aNN''"] ann(3) by blast
  have 3: "Name_init ''Ann'' = Inr \<lparr>fvalue = ''ann''\<rparr>"
    using C7_Name_init [of "''Ann''"] ann(1,2) by simp
  have 4: "Name_init ''b0b'' = Inl (ValueError ''Name must contain only alphabetic characters.'')"
    using C7_Name_init [of "''b0b''"] b0b by simp
  have 5: "Name_init [] = Inl (ValueError ''Name must contain only alphabetic characters.'')"
    using C7_Name_init [of "[]"] by simp
  from 1 2 3 4 5 show ?thesis by blast
qed

text \<open>
  C6, as the code has it. \<open>Phone\<close> accepts a string exactly when it has 10 characters
  and \<open>str.isdigit\<close> holds of each, and raises \<open>ValueError\<close> (InvalidFormat) on every
  other string. Every string of 10 ASCII digits is accepted; so is one of 10 digits that
  are not ASCII, which is where "if and only if ... ASCII" fails.
\<close>

theorem C6_Phone_init:
  "Phone_init raw =
     (if length raw = 10 \<and> list_all isdigit_char raw then Inr \<lparr>fvalue = raw\<rparr>
      else Inl (ValueError ''Phone number must contain 10 digits.''))
   \<and> (length raw = 10 \<and> list_all ascii_digit raw \<longrightarrow> Phone_init raw = Inr \<lparr>fvalue = raw\<rparr>)"
  by (auto simp: Phone_init_def str_isdigit_def isdigit_char_def list_all_iff)

theorem C6_Phone_init_witness:
  "Phone_init ''1234567890'' = Inr \<lparr>fvalue = ''1234567890''\<rparr>
   \<and> Phone_init ''123'' = Inl (ValueError ''Phone number must contain 10 digits.'')"
proof -
  have h: "length ''1234567890'' = 10 \<and> list_all ascii_digit ''1234567890''"
    by code_simp
  have ok: "Phone_init ''1234567890'' = Inr \<lparr>fvalue = ''1234567890''\<rparr>"
    using C6_Phone_init [of "''1234567890''"] h by blast
  have bad: "Phone_init ''123'' = Inl (ValueError ''Phone number must contain 10 digits.'')"
    using C6_Phone_init [of "''123''"] by simp
  from ok bad show ?thesis by blast
qed

text \<open>
  The string of ten superscript twos (U+00B2) is accepted, and U+00B2 is not an ASCII
  digit.
\<close>

theorem C6_superscript_digits_counterexample:
  "Phone_init [CHR 0xB2, CHR 0xB2, CHR 0xB2, CHR 0xB2, CHR 0xB2,
               CHR 0xB2, CHR 0xB2, CHR 0xB2, CHR 0xB2, CHR 0xB2]
     = Inr \<lparr>fvalue = [CHR 0xB2, CHR 0xB2, CHR 0xB2, CHR 0xB2, CHR 0xB2,
                      CHR 0xB2, CHR 0xB2, CHR 0xB2, CHR 0xB2, CHR 0xB2]\<rparr>
   \<and> \<not> ascii_digit (CHR 0xB2)"
  by code_simp

section \<open>The address book\<close>

text \<open>
  C8. After \<open>add_record(r)\<close>, \<open>find\<close> on the name \<open>r\<close> stores gives \<open>r\<close>;
  \<open>delete\<close> on that name succeeds and \<open>find\<close> then gives \<open>None\<close>; \<open>delete\<close> on a
  key that is not in the book raises \<open>KeyError\<close> (NotFound) and the book is as before.
\<close>

theorem C8_round_trip:
  "find_record (add_record data r) (fvalue (name r)) = Some r
   \<and> fst (delete (add_record data r) (fvalue (name r))) = None
   \<and> find_record (snd (delete (add_record data r) (fvalue (name r)))) (fvalue (name r)) = None
   \<and> (find_record data nm = None \<longrightarrow> delete data nm = (Some (KeyError nm), data))"
  by (simp add: find_record_def add_record_def delete_def update_conv' delete_conv')

theorem C8_round_trip_witness:
  "find_record (add_record [] \<lparr>name = \<lparr>fvalue = ''bob''\<rparr>, phones = []\<rparr>) ''bob''
     = Some \<lparr>name = \<lparr>fvalue = ''bob''\<rparr>, phones = []\<rparr>
   \<and> find_record (snd (delete (add_record [] \<lparr>name = \<lparr>fvalue = ''bob''\<rparr>, phones = []\<rparr>) ''bob''))
        ''bob'' = None
   \<and> delete [] ''bob'' = (Some (KeyError ''bob''), [])"
proof -
  have h: "find_record [] ''bob'' = None" by (simp add: find_record_def)
  show ?thesis
    using h C8_round_trip [of "[]" "\<lparr>name = \<lparr>fvalue = ''bob''\<rparr>, phones = []\<rparr>" "''bob''"]
    by simp
qed

text \<open>
  What \<open>find\<close> does: it looks the string up as it is given. After
  \<open>add_record(r)\<close> it returns \<open>r\<close> for the name \<open>r\<close> stores and, for any other
  string, what the book held before; it returns \<open>None\<close>, a value and not an
  exception, exactly when the string is no key of the book.
\<close>

lemma find_record_add_record:
  "find_record (add_record data r) s
     = (if s = fvalue (name r) then Some r else find_record data s)
   \<and> (find_record data s = None \<longleftrightarrow> s \<notin> fst ` set data)"
  by (simp add: find_record_def add_record_def update_conv' map_of_eq_None_iff)

text \<open>
  C2, at the input where the code leaves it. \<open>Record("Bob")\<close> is stored under
  \<open>"bob"\<close>, the lower-cased name. \<open>"BOB"\<close> and \<open>"Bob"\<close> lower-case to that name,
  yet \<open>find("BOB")\<close> and \<open>find("Bob")\<close> return \<open>None\<close>: \<open>find\<close> does not
  lower-case its argument. In a session, \<open>add Bob 1111111111\<close> is answered "Contact
  added.", \<open>phone Bob\<close> then "Contact 'Bob' not found.", and a second
  \<open>add Bob 2222222222\<close> again "Contact added.": it replaces the record, and the first
  phone is lost.
\<close>

theorem C2_find_ignores_case_of_key:
  "Record_init ''Bob'' = Inr \<lparr>name = \<lparr>fvalue = ''bob''\<rparr>, phones = []\<rparr>
   \<and> str_lower ''BOB'' = ''bob''
   \<and> str_lower ''Bob'' = ''bob''
   \<and> find_record (add_record [] \<lparr>name = \<lparr>fvalue = ''bob''\<rparr>, phones = []\<rparr>) ''bob''
       = Some \<lparr>name = \<lparr>fvalue = ''bob''\<rparr>, phones = []\<rparr>
   \<and> find_record (add_record [] \<lparr>name = \<lparr>fvalue = ''bob''\<rparr>, phones = []\<rparr>) ''BOB'' = None
   \<and> find_record (add_record [] \<lparr>name = \<lparr>fvalue = ''bob''\<rparr>, phones = []\<rparr>) ''Bob'' = None
   \<and> main [''add Bob 1111111111'', ''phone Bob'', ''add Bob 2222222222'', ''all'', ''close'']
       = (None,
          \<lparr>book = [(''bob'', \<lparr>name = \<lparr>fvalue = ''bob''\<rparr>,
                             phones = [\<lparr>fvalue = ''2222222222''\<rparr>]\<rparr>)],
           stdin = [],
           stdout = [Printed ''Welcome to the assistant bot!'',
                     Prompted ''Enter a command: '', Printed ''Contact added.'',
                     Prompted ''Enter a command: '',
                     Printed (''Contact '' @ [CHR 0x27] @ ''Bob'' @ [CHR 0x27] @ '' not found.''),
                     Prompted ''Enter a command: '', Printed ''Contact added.'',
                     Prompted ''Enter a command: '',
                     Printed ''Contact name: bob, phone: 2222222222'',
                     Prompted ''Enter a command: '', Printed ''Good bye!'']\<rparr>)"
  by code_simp

theorem C2_find_ignores_case_of_key_witness:
  "find_record (book (snd (main [''add Bob 1111111111'', ''phone Bob'',
                                 ''add Bob 2222222222'', ''all'', ''close''])))
     (str_lower ''Bob'')
   = Some \<lparr>name = \<lparr>fvalue = ''bob''\<rparr>, phones = [\<lparr>fvalue = ''2222222222''\<rparr>]\<rparr>"
  using C2_find_ignores_case_of_key by (simp add: find_record_def)

section \<open>Record operations\<close>

lemma first_phone_None: "first_phone phone ps = None \<longleftrightarrow> phone \<notin> fvalue ` set ps"
  by (induction ps) auto

lemma first_phone_Some:
  "first_phone phone ps = Some p \<Longrightarrow> p \<in> set ps \<and> fvalue p = phone"
  by (induction ps) (auto split: if_splits)

lemma first_phone_append:
  "phone \<notin> fvalue ` set before \<Longrightarrow> fvalue p = phone \<Longrightarrow>
     first_phone phone (before @ p # after) = Some p"
  by (induction before) auto

lemma first_phone_member:
  fixes p :: Phone
  assumes "p \<in> set ps"
  shows "first_phone (fvalue p) ps = Some p"
proof -
  from assms have "first_phone (fvalue p) ps \<noteq> None"
    by (simp add: first_phone_None)
  then obtain q where q: "first_phone (fvalue p) ps = Some q" by blast
  then have "fvalue q = fvalue p" by (simp add: first_phone_Some)
  then have "q = p" by simp
  with q show ?thesis by simp
qed

lemma Phone_init_isl:
  "isl (Phone_init v) \<Longrightarrow> Phone_init v = Inl (ValueError ''Phone number must contain 10 digits.'')"
  by (simp add: Phone_init_def split: if_splits)

lemma Phone_init_not_isl: "\<not> isl (Phone_init v) \<Longrightarrow> Phone_init v = Inr \<lparr>fvalue = v\<rparr>"
  by (simp add: Phone_init_def split: if_splits)

lemma Name_init_isl:
  "isl (Name_init v) \<Longrightarrow>
     Name_init v = Inl (ValueError ''Name must contain only alphabetic characters.'')"
  by (simp add: Name_init_def Let_def split: if_splits)

text \<open>A list that holds the value splits at the first phone that has it.\<close>

lemma first_match_split:
  assumes "phone \<in> fvalue ` set ps"
  shows "\<exists>before p after. ps = before @ p # after \<and> fvalue p = phone
        \<and> phone \<notin> fvalue ` set before"
proof -
  from assms have "\<exists>p \<in> set ps. fvalue p = phone" by auto
  from split_list_first_prop [OF this]
  obtain before p after
    where a: "ps = before @ p # after" and b: "fvalue p = phone"
      and c: "\<forall>q \<in> set before. fvalue q \<noteq> phone"
    by auto
  from c have "phone \<notin> fvalue ` set before" by auto
  with a b show ?thesis by (intro exI conjI)
qed

text \<open>
  C9. \<open>remove_phone(phone)\<close> deletes the first stored phone whose value is
  \<open>phone\<close> and leaves every other phone, later duplicates included, where it was; it
  raises \<open>ValueError\<close> "Phone number not found" (NotFound) and leaves the record as it
  was when no stored phone has that value, as on a record with no phones.
\<close>

theorem C9_remove_phone:
  "(phone \<notin> fvalue ` set (phones r) \<longrightarrow>
      remove_phone r phone = (Some (ValueError ''Phone number not found''), r))
   \<and> (phones r = before @ p # after \<and> fvalue p = phone \<and> phone \<notin> fvalue ` set before \<longrightarrow>
      remove_phone r phone = (None, r\<lparr>phones := before @ after\<rparr>))
   \<and> (phones r = [] \<longrightarrow>
      remove_phone r phone = (Some (ValueError ''Phone number not found''), r))"
proof (intro conjI impI)
  assume "phone \<notin> fvalue ` set (phones r)"
  then have "first_phone phone (phones r) = None"
    by (simp add: first_phone_None)
  then show "remove_phone r phone = (Some (ValueError ''Phone number not found''), r)"
    by (simp add: remove_phone_def)
next
  assume a: "phones r = before @ p # after \<and> fvalue p = phone \<and> phone \<notin> fvalue ` set before"
  then have "first_phone phone (phones r) = Some p"
    by (simp add: first_phone_append)
  moreover from a have "p \<notin> set before" by auto
  with a have "remove1 p (phones r) = before @ after"
    by (simp add: remove1_append)
  ultimately show "remove_phone r phone = (None, r\<lparr>phones := before @ after\<rparr>)"
    by (simp add: remove_phone_def)
next
  assume "phones r = []"
  then show "remove_phone r phone = (Some (ValueError ''Phone number not found''), r)"
    by (simp add: remove_phone_def)
qed

theorem C9_remove_phone_witness:
  "remove_phone
     \<lparr>name = \<lparr>fvalue = ''bob''\<rparr>,
      phones = [\<lparr>fvalue = ''2222222222''\<rparr>, \<lparr>fvalue = ''1111111111''\<rparr>,
                \<lparr>fvalue = ''3333333333''\<rparr>, \<lparr>fvalue = ''1111111111''\<rparr>]\<rparr>
     ''1111111111''
   = (None,
      \<lparr>name = \<lparr>fvalue = ''bob''\<rparr>,
       phones = [\<lparr>fvalue = ''2222222222''\<rparr>, \<lparr>fvalue = ''3333333333''\<rparr>,
                 \<lparr>fvalue = ''1111111111''\<rparr>]\<rparr>)
   \<and> remove_phone \<lparr>name = \<lparr>fvalue = ''bob''\<rparr>, phones = []\<rparr> ''0000000000''
   = (Some (ValueError ''Phone number not found''), \<lparr>name = \<lparr>fvalue = ''bob''\<rparr>, phones = []\<rparr>)
   \<and> remove_phone \<lparr>name = \<lparr>fvalue = ''bob''\<rparr>, phones = [\<lparr>fvalue = ''2222222222''\<rparr>]\<rparr>
        ''0000000000''
   = (Some (ValueError ''Phone number not found''),
      \<lparr>name = \<lparr>fvalue = ''bob''\<rparr>, phones = [\<lparr>fvalue = ''2222222222''\<rparr>]\<rparr>)"
  using C9_remove_phone [of "''1111111111''"
      "\<lparr>name = \<lparr>fvalue = ''bob''\<rparr>,
        phones = [\<lparr>fvalue = ''2222222222''\<rparr>, \<lparr>fvalue = ''1111111111''\<rparr>,
                  \<lparr>fvalue = ''3333333333''\<rparr>, \<lparr>fvalue = ''1111111111''\<rparr>]\<rparr>"
      "[\<lparr>fvalue = ''2222222222''\<rparr>]" "\<lparr>fvalue = ''1111111111''\<rparr>"
      "[\<lparr>fvalue = ''3333333333''\<rparr>, \<lparr>fvalue = ''1111111111''\<rparr>]"]
    C9_remove_phone [of "''0000000000''" "\<lparr>name = \<lparr>fvalue = ''bob''\<rparr>, phones = []\<rparr>"]
    C9_remove_phone [of "''0000000000''"
      "\<lparr>name = \<lparr>fvalue = ''bob''\<rparr>, phones = [\<lparr>fvalue = ''2222222222''\<rparr>]\<rparr>"]
  by simp

lemma add_phone_keeps_ok: "phones_ok r \<Longrightarrow> phones_ok (snd (add_phone r phone))"
  by (auto simp: phones_ok_def add_phone_def Phone_init_def split: sum.splits if_splits)

lemma remove_phone_keeps_ok: "phones_ok r \<Longrightarrow> phones_ok (snd (remove_phone r phone))"
  by (auto simp: phones_ok_def remove_phone_def list_all_iff split: option.splits
      dest: notin_set_remove1)

text \<open>
  C1, at the input where the code leaves it. \<open>Record("bob")\<close>, then
  \<open>add_phone("1234567890")\<close>, gives a well-formed record; \<open>edit_phone("1234567890",
  "abc")\<close> then succeeds and stores \<open>"abc"\<close>, a value \<open>Phone\<close> rejects: the record
  holds a phone that is not 10 digits.
\<close>

theorem C1_edit_phone_stores_unchecked:
  "Record_init ''bob'' = Inr \<lparr>name = \<lparr>fvalue = ''bob''\<rparr>, phones = []\<rparr>
   \<and> add_phone \<lparr>name = \<lparr>fvalue = ''bob''\<rparr>, phones = []\<rparr> ''1234567890''
       = (None, \<lparr>name = \<lparr>fvalue = ''bob''\<rparr>, phones = [\<lparr>fvalue = ''1234567890''\<rparr>]\<rparr>)
   \<and> edit_phone \<lparr>name = \<lparr>fvalue = ''bob''\<rparr>, phones = [\<lparr>fvalue = ''1234567890''\<rparr>]\<rparr>
         ''1234567890'' ''abc''
       = (None, \<lparr>name = \<lparr>fvalue = ''bob''\<rparr>, phones = [\<lparr>fvalue = ''abc''\<rparr>]\<rparr>)
   \<and> Phone_init ''abc'' = Inl (ValueError ''Phone number must contain 10 digits.'')
   \<and> phones_ok \<lparr>name = \<lparr>fvalue = ''bob''\<rparr>, phones = [\<lparr>fvalue = ''1234567890''\<rparr>]\<rparr>
   \<and> \<not> phones_ok \<lparr>name = \<lparr>fvalue = ''bob''\<rparr>, phones = [\<lparr>fvalue = ''abc''\<rparr>]\<rparr>"
  by code_simp

theorem C1_edit_phone_stores_unchecked_witness:
  "\<not> phones_ok (snd (edit_phone
       \<lparr>name = \<lparr>fvalue = ''bob''\<rparr>, phones = [\<lparr>fvalue = ''1234567890''\<rparr>]\<rparr>
       ''1234567890'' ''abc''))"
  using C1_edit_phone_stores_unchecked by simp

text \<open>
  X1. The operations that build phones through \<open>Phone\<close> keep a record well formed:
  a new record has no phones, and \<open>add_phone\<close> and \<open>remove_phone\<close>, whether they
  succeed or raise, leave every stored phone one that passes the check of \<open>Phone\<close>.
\<close>

theorem X1_checked_operations_keep_phones_ok:
  "(\<forall>r. Record_init nm = Inr r \<longrightarrow> phones_ok r)
   \<and> (phones_ok r \<longrightarrow>
        phones_ok (snd (add_phone r phone)) \<and> phones_ok (snd (remove_phone r phone)))"
proof -
  have "phones_ok r0" if "Record_init nm = Inr r0" for r0
    using that by (auto simp: Record_init_def phones_ok_def split: sum.splits)
  then show ?thesis
    using add_phone_keeps_ok [of r phone] remove_phone_keeps_ok [of r phone] by blast
qed

theorem X1_checked_operations_keep_phones_ok_witness:
  "phones_ok \<lparr>name = \<lparr>fvalue = ''bob''\<rparr>, phones = []\<rparr>
   \<and> phones_ok (snd (add_phone \<lparr>name = \<lparr>fvalue = ''bob''\<rparr>, phones = []\<rparr> ''1234567890''))
   \<and> phones_ok (snd (remove_phone \<lparr>name = \<lparr>fvalue = ''bob''\<rparr>, phones = []\<rparr> ''1234567890''))"
proof -
  have r: "Record_init ''bob'' = Inr \<lparr>name = \<lparr>fvalue = ''bob''\<rparr>, phones = []\<rparr>"
    by code_simp
  have ok: "phones_ok \<lparr>name = \<lparr>fvalue = ''bob''\<rparr>, phones = []\<rparr>"
    using X1_checked_operations_keep_phones_ok [of "''bob''"] r by blast
  with X1_checked_operations_keep_phones_ok
         [of "''bob''" "\<lparr>name = \<lparr>fvalue = ''bob''\<rparr>, phones = []\<rparr>" "''1234567890''"]
  show ?thesis by blast
qed

section \<open>Command handlers\<close>

lemma add_phones_good:
  "list_all (\<lambda>p. \<not> isl (Phone_init p)) good \<Longrightarrow>
     add_phones r (good @ rest)
       = add_phones (r\<lparr>phones := phones r @ map (\<lambda>v. \<lparr>fvalue = v\<rparr>) good\<rparr>) rest"
proof (induction good arbitrary: r)
  case Nil
  then show ?case by simp
next
  case (Cons g good)
  then have "add_phone r g = (None, r\<lparr>phones := phones r @ [\<lparr>fvalue = g\<rparr>]\<rparr>)"
    by (simp add: add_phone_def Phone_init_not_isl)
  with Cons show ?case by simp
qed

lemma add_phones_bad:
  "isl (Phone_init bad) \<Longrightarrow>
     add_phones r (bad # rest)
       = (Some (ValueError ''Phone number must contain 10 digits.''), r)"
  by (simp add: add_phone_def Phone_init_isl)

lemma add_phones_first_bad:
  assumes "list_all (\<lambda>p. \<not> isl (Phone_init p)) good" and "isl (Phone_init bad)"
  shows "add_phones r (good @ bad # rest)
       = (Some (ValueError ''Phone number must contain 10 digits.''),
          r\<lparr>phones := phones r @ map (\<lambda>v. \<lparr>fvalue = v\<rparr>) good\<rparr>)"
  by (simp only: add_phones_good [OF assms(1)] add_phones_bad [OF assms(2)])

text \<open>A list with a phone that fails the check splits at the first such phone.\<close>

lemma first_failing_phone:
  assumes "\<exists>p \<in> set phs. isl (Phone_init p)"
  shows "\<exists>good bad rest. phs = good @ bad # rest \<and> isl (Phone_init bad)
        \<and> list_all (\<lambda>p. \<not> isl (Phone_init p)) good"
proof -
  from split_list_first_prop [OF assms]
  obtain good bad rest
    where a: "phs = good @ bad # rest" and b: "isl (Phone_init bad)"
      and c: "\<forall>q \<in> set good. \<not> isl (Phone_init q)"
    by auto
  from c have "list_all (\<lambda>p. \<not> isl (Phone_init p)) good" by (simp add: list_all_iff)
  with a b show ?thesis by (intro exI conjI)
qed

text \<open>
  C4, as the code has it. The arguments are a name, phones that pass the check of
  \<open>Phone\<close>, a first phone that fails it, and any further phones; and the name is one
  for which the lookup as typed and the lookup of its lower-cased form give the same,
  as they do for every name typed in lower case. When the book holds a record for the
  name, the handler returns the phone error and the record keeps the phones before the
  failing one, appended. When it holds none, the book is left as it was, and the handler
  returns the phone error if the name is one \<open>Name\<close> accepts, and the name error if
  it is not: \<open>Record(name)\<close> is built before any phone is looked at.
\<close>

theorem C4_add_contact_invalid_phone:
  assumes good: "list_all (\<lambda>p. \<not> isl (Phone_init p)) good"
    and bad: "isl (Phone_init bad)"
    and same: "find_record (book w) nm = find_record (book w) (str_lower nm)"
  shows "(find_record (book w) (str_lower nm) = Some r \<longrightarrow>
            add_contact (nm # good @ bad # rest) w
              = (''Phone number must contain 10 digits.'',
                 w\<lparr>book := AList.update nm
                     (r\<lparr>phones := phones r @ map (\<lambda>v. \<lparr>fvalue = v\<rparr>) good\<rparr>) (book w)\<rparr>))
    \<and> (find_record (book w) (str_lower nm) = None \<and> \<not> isl (Name_init nm) \<longrightarrow>
            add_contact (nm # good @ bad # rest) w
              = (''Phone number must contain 10 digits.'', w))
    \<and> (find_record (book w) (str_lower nm) = None \<and> isl (Name_init nm) \<longrightarrow>
            add_contact (nm # good @ bad # rest) w
              = (''Name must contain only alphabetic characters.'', w))"
proof (intro conjI impI)
  assume "find_record (book w) (str_lower nm) = Some r"
  with same have "find_record (book w) nm = Some r" by simp
  then show "add_contact (nm # good @ bad # rest) w
      = (''Phone number must contain 10 digits.'',
         w\<lparr>book := AList.update nm
             (r\<lparr>phones := phones r @ map (\<lambda>v. \<lparr>fvalue = v\<rparr>) good\<rparr>) (book w)\<rparr>)"
    by (simp add: add_contact_def input_error_def add_contact_body_def
        add_phones_first_bad [OF good bad])
next
  assume a: "find_record (book w) (str_lower nm) = None \<and> \<not> isl (Name_init nm)"
  with same have none: "find_record (book w) nm = None" by simp
  from a obtain n where "Name_init nm = Inr n" by (cases "Name_init nm") auto
  with none show "add_contact (nm # good @ bad # rest) w
      = (''Phone number must contain 10 digits.'', w)"
    by (simp add: add_contact_def input_error_def add_contact_body_def Record_init_def
        add_phones_first_bad [OF good bad])
next
  assume a: "find_record (book w) (str_lower nm) = None \<and> isl (Name_init nm)"
  with same have "find_record (book w) nm = None" by simp
  with a show "add_contact (nm # good @ bad # rest) w
      = (''Name must contain only alphabetic characters.'', w)"
    by (simp add: add_contact_def input_error_def add_contact_body_def Record_init_def
        Name_init_isl)
qed

theorem C4_add_contact_invalid_phone_witness:
  "add_contact [''bob'', ''1234567890'', ''123'', ''5555555555'']
     \<lparr>book = [(''bob'', \<lparr>name = \<lparr>fvalue = ''bob''\<rparr>, phones = []\<rparr>)], stdin = [], stdout = []\<rparr>
   = (''Phone number must contain 10 digits.'',
      \<lparr>book = [(''bob'', \<lparr>name = \<lparr>fvalue = ''bob''\<rparr>, phones = [\<lparr>fvalue = ''1234567890''\<rparr>]\<rparr>)],
       stdin = [], stdout = []\<rparr>)
   \<and> add_contact [''Ann'', ''1234567890'', ''123'', ''5555555555'']
     \<lparr>book = [(''bob'', \<lparr>name = \<lparr>fvalue = ''bob''\<rparr>, phones = []\<rparr>)], stdin = [], stdout = []\<rparr>
   = (''Phone number must contain 10 digits.'',
      \<lparr>book = [(''bob'', \<lparr>name = \<lparr>fvalue = ''bob''\<rparr>, phones = []\<rparr>)], stdin = [], stdout = []\<rparr>)
   \<and> add_contact [''b0b'', ''1234567890'', ''123'', ''5555555555'']
     \<lparr>book = [(''bob'', \<lparr>name = \<lparr>fvalue = ''bob''\<rparr>, phones = []\<rparr>)], stdin = [], stdout = []\<rparr>
   = (''Name must contain only alphabetic characters.'',
      \<lparr>book = [(''bob'', \<lparr>name = \<lparr>fvalue = ''bob''\<rparr>, phones = []\<rparr>)], stdin = [], stdout = []\<rparr>)"
proof -
  let ?r = "\<lparr>name = \<lparr>fvalue = ''bob''\<rparr>, phones = []\<rparr>"
  let ?w = "\<lparr>book = [(''bob'', ?r)], stdin = [], stdout = []\<rparr>"
  have good: "list_all (\<lambda>p. \<not> isl (Phone_init p)) [''1234567890'']" by code_simp
  have bad: "isl (Phone_init ''123'')" by code_simp
  have bob_same: "find_record (book ?w) ''bob'' = find_record (book ?w) (str_lower ''bob'')"
    by code_simp
  have bob: "find_record (book ?w) (str_lower ''bob'') = Some ?r" by code_simp
  have ann_same: "find_record (book ?w) ''Ann'' = find_record (book ?w) (str_lower ''Ann'')"
    by code_simp
  have ann: "find_record (book ?w) (str_lower ''Ann'') = None \<and> \<not> isl (Name_init ''Ann'')"
    by code_simp
  have b0b_same: "find_record (book ?w) ''b0b'' = find_record (book ?w) (str_lower ''b0b'')"
    by code_simp
  have b0b: "find_record (book ?w) (str_lower ''b0b'') = None \<and> isl (Name_init ''b0b'')"
    by code_simp
  from C4_add_contact_invalid_phone [OF good bad bob_same, where r = ?r and rest = "[''5555555555'']"] bob
  have 1: "add_contact [''bob'', ''1234567890'', ''123'', ''5555555555''] ?w
      = (''Phone number must contain 10 digits.'',
         \<lparr>book = [(''bob'', \<lparr>name = \<lparr>fvalue = ''bob''\<rparr>, phones = [\<lparr>fvalue = ''1234567890''\<rparr>]\<rparr>)],
          stdin = [], stdout = []\<rparr>)"
    by simp
  from C4_add_contact_invalid_phone [OF good bad ann_same, where rest = "[''5555555555'']"] ann
  have 2: "add_contact [''Ann'', ''1234567890'', ''123'', ''5555555555''] ?w
      = (''Phone number must contain 10 digits.'', ?w)"
    by simp
  from C4_add_contact_invalid_phone [OF good bad b0b_same, where rest = "[''5555555555'']"] b0b
  have 3: "add_contact [''b0b'', ''1234567890'', ''123'', ''5555555555''] ?w
      = (''Name must contain only alphabetic characters.'', ?w)"
    by simp
  from 1 2 3 show ?thesis by simp
qed

text \<open>
  The command \<open>add b0b 123\<close> on an empty book: the phone \<open>123\<close> fails the check of
  \<open>Phone\<close>, and the output is the name error, not the phone error.
\<close>

theorem C4_add_contact_counterexample:
  "Phone_init ''123'' = Inl (ValueError ''Phone number must contain 10 digits.'')
   \<and> find_record [] ''b0b'' = None
   \<and> add_contact [''b0b'', ''123''] \<lparr>book = [], stdin = [], stdout = []\<rparr>
     = (''Name must contain only alphabetic characters.'',
        \<lparr>book = [], stdin = [], stdout = []\<rparr>)"
  by code_simp

lemma change_contact_absent:
  "length args = 2 \<Longrightarrow> find_record (book w) (args ! 0) = None \<Longrightarrow>
     change_contact args w = (''Invalid command.'', w)"
  by (simp add: change_contact_def input_error_def change_contact_body_def)

text \<open>
  C5, at the input where the code leaves it. \<open>change bob 1234567890\<close> on an empty
  book: \<open>find\<close> gives \<open>None\<close>, \<open>record.phones\<close> raises \<open>AttributeError\<close>, and the
  decorator's last clause turns it into "Invalid command."; the message for a missing
  key, "Enter name.", is not the output. Nothing is printed, no line is read and the
  book is as before.
\<close>

theorem C5_change_unknown_contact:
  "find_record [] ''bob'' = None
   \<and> change_contact [''bob'', ''1234567890''] \<lparr>book = [], stdin = [''0''], stdout = []\<rparr>
     = (''Invalid command.'', \<lparr>book = [], stdin = [''0''], stdout = []\<rparr>)"
  by code_simp

theorem C5_change_unknown_contact_witness:
  "fst (change_contact [''bob'', ''1234567890''] \<lparr>book = [], stdin = [''0''], stdout = []\<rparr>)
     \<noteq> error_message (KeyError ''bob'')"
  using C5_change_unknown_contact by simp

text \<open>\<open>str(i)\<close> is injective: \<open>digits_value\<close> reads the numeral back.\<close>

lemma digits_value_str_nat: "digits_value (str_nat n) = n"
proof (induction n rule: str_nat.induct)
  case (1 n)
  show ?case
  proof (cases "n < 10")
    case True
    then show ?thesis
      by (subst str_nat.simps) (simp add: digits_value_def ord_def)
  next
    case False
    with 1 have ih: "digits_value (str_nat (n div 10)) = n div 10" by simp
    have "n mod 10 < 10" by simp
    then have d: "ord (char_of (48 + n mod 10)) = 48 + n mod 10"
      by (simp add: ord_def)
    from False have "str_nat n = str_nat (n div 10) @ [char_of (48 + n mod 10)]"
      by (subst str_nat.simps) simp
    then have "digits_value (str_nat n) = 10 * digits_value (str_nat (n div 10)) + n mod 10"
      using d by (simp add: digits_value_def)
    with ih show ?thesis by simp
  qed
qed

lemma inj_str_nat: "inj str_nat"
  by (rule inj_on_inverseI [where g = digits_value]) (simp add: digits_value_str_nat)

lemma available_phones_nth:
  assumes "i < length (phones r)"
  shows "map_of (available_phones r) (str_nat i) = Some (phones r ! i)"
proof -
  let ?ks = "map str_nat [0..<length (phones r)]"
  have "distinct ?ks"
    by (simp add: distinct_map inj_on_subset [OF inj_str_nat subset_UNIV])
  moreover have "length ?ks = length (phones r)" by simp
  ultimately have "map_of (zip ?ks (phones r)) (?ks ! i) = Some (phones r ! i)"
    using assms by (rule_tac map_of_zip_nth)
  with assms show ?thesis by (simp add: available_phones_def)
qed

text \<open>
  C10. The contact exists, the line read at the prompt is the index \<open>i\<close> of one of
  its phones, and the new phone fails the check of \<open>Phone\<close>. The handler returns the
  validation error; the record in the book has lost one phone, the first one with the
  value of the \<open>i\<close>-th, and has gained none.
\<close>

theorem C10_change_invalid_new_phone:
  assumes rec: "find_record (book w) nm = Some r"
    and idx: "i < length (phones r)"
    and inp: "stdin w = str_nat i # rest"
    and bad: "isl (Phone_init new_phone)"
  shows "fst (change_contact [nm, new_phone] w) = ''Phone number must contain 10 digits.''
    \<and> book (snd (change_contact [nm, new_phone] w))
        = AList.update nm (r\<lparr>phones := remove1 (phones r ! i) (phones r)\<rparr>) (book w)
    \<and> find_record (book (snd (change_contact [nm, new_phone] w))) nm
        = Some (r\<lparr>phones := remove1 (phones r ! i) (phones r)\<rparr>)
    \<and> length (remove1 (phones r ! i) (phones r)) + 1 = length (phones r)
    \<and> stdin (snd (change_contact [nm, new_phone] w)) = rest"
proof -
  let ?p = "phones r ! i"
  let ?r1 = "r\<lparr>phones := remove1 ?p (phones r)\<rparr>"
  let ?w2 = "print_available (available_phones r)
               (print (''Available phone numbers for contact '' @ nm @ '':'') w)"
  let ?w3 = "?w2\<lparr>stdout := stdout ?w2
               @ [Prompted ''Enter the number of the phone you want to change: ''],
             stdin := rest\<rparr>"
  have w2: "stdin ?w2 = str_nat i # rest" "book ?w2 = book w"
    using inp by (simp_all add: stdin_print_available stdin_print book_print_available book_print)
  then have read: "input ''Enter the number of the phone you want to change: '' ?w2
                   = (Inr (str_nat i), ?w3)"
    by (simp add: input_def Let_def)
  have w3: "book ?w3 = book w" "stdin ?w3 = rest"
    using w2 by simp_all
  have chosen: "map_of (available_phones r) (str_nat i) = Some ?p"
    using idx by (rule available_phones_nth)
  from idx have mem: "?p \<in> set (phones r)" by simp
  then have removed: "remove_phone r (fvalue ?p) = (None, ?r1)"
    by (simp add: remove_phone_def first_phone_member)
  have added: "add_phone ?r1 new_phone
               = (Some (ValueError ''Phone number must contain 10 digits.''), ?r1)"
    using bad by (simp add: add_phone_def Phone_init_isl)
  have body: "change_contact_body [nm, new_phone] w
              = (Inl (ValueError ''Phone number must contain 10 digits.''),
                 ?w3\<lparr>book := AList.update nm ?r1 (book ?w3)\<rparr>)"
    unfolding change_contact_body_def Let_def
    using rec read chosen removed added by simp
  then have res: "change_contact [nm, new_phone] w
              = (''Phone number must contain 10 digits.'',
                 ?w3\<lparr>book := AList.update nm ?r1 (book ?w3)\<rparr>)"
    by (simp add: change_contact_def input_error_def)
  have len: "length (remove1 ?p (phones r)) + 1 = length (phones r)"
    using mem length_pos_if_in_set [OF mem] by (simp add: length_remove1)
  show ?thesis
    unfolding res using w3 len by (simp add: find_record_def update_conv')
qed


theorem C10_change_invalid_new_phone_witness:
  "fst (change_contact [''bob'', ''123'']
          \<lparr>book = [(''bob'', \<lparr>name = \<lparr>fvalue = ''bob''\<rparr>,
                             phones = [\<lparr>fvalue = ''1111111111''\<rparr>, \<lparr>fvalue = ''2222222222''\<rparr>]\<rparr>)],
           stdin = [''1'', ''all''], stdout = []\<rparr>)
     = ''Phone number must contain 10 digits.''
   \<and> find_record (book (snd (change_contact [''bob'', ''123'']
          \<lparr>book = [(''bob'', \<lparr>name = \<lparr>fvalue = ''bob''\<rparr>,
                             phones = [\<lparr>fvalue = ''1111111111''\<rparr>, \<lparr>fvalue = ''2222222222''\<rparr>]\<rparr>)],
           stdin = [''1'', ''all''], stdout = []\<rparr>))) ''bob''
     = Some \<lparr>name = \<lparr>fvalue = ''bob''\<rparr>, phones = [\<lparr>fvalue = ''1111111111''\<rparr>]\<rparr>
   \<and> stdin (snd (change_contact [''bob'', ''123'']
          \<lparr>book = [(''bob'', \<lparr>name = \<lparr>fvalue = ''bob''\<rparr>,
                             phones = [\<lparr>fvalue = ''1111111111''\<rparr>, \<lparr>fvalue = ''2222222222''\<rparr>]\<rparr>)],
           stdin = [''1'', ''all''], stdout = []\<rparr>))
     = [''all'']"
proof -
  let ?r = "\<lparr>name = \<lparr>fvalue = ''bob''\<rparr>,
             phones = [\<lparr>fvalue = ''1111111111''\<rparr>, \<lparr>fvalue = ''2222222222''\<rparr>]\<rparr>"
  let ?w = "\<lparr>book = [(''bob'', ?r)], stdin = [''1'', ''all''], stdout = []\<rparr>"
  have rec: "find_record (book ?w) ''bob'' = Some ?r" by (simp add: find_record_def)
  have idx: "Suc 0 < length (phones ?r)" by simp
  have key: "str_nat (Suc 0) = ''1''" by code_simp
  have inp: "stdin ?w = str_nat (Suc 0) # [''all'']" by (simp add: key)
  have bad: "isl (Phone_init ''123'')" by code_simp
  show ?thesis
    using C10_change_invalid_new_phone [OF rec idx inp bad] by (simp add: find_record_def)
qed

section \<open>The session\<close>

text \<open>
  C3, at the input where the code leaves it. The first line is empty, so
  \<open>parse_input\<close> raises \<open>IndexError\<close> at \<open>parts[0]\<close>, outside every handler; the
  decorator of \<open>main\<close> catches it and \<open>main\<close> returns. No \<open>close\<close> or \<open>exit\<close> was
  read, nothing was printed for the error, and the line \<open>hello\<close> is left unread.
\<close>

theorem C3_empty_line_ends_session:
  "main ['''', ''hello'']
   = (Some ''Enter the argument for the command.'',
      \<lparr>book = [], stdin = [''hello''],
       stdout = [Printed ''Welcome to the assistant bot!'', Prompted ''Enter a command: '']\<rparr>)"
  by code_simp

theorem C3_empty_line_ends_session_witness:
  "fst (main ['''', ''hello'']) \<noteq> None
   \<and> stdin (snd (main ['''', ''hello''])) = [''hello'']"
  using C3_empty_line_ends_session by simp

lemma set_stdin_input:
  "input p v = (res, v') \<Longrightarrow> set (stdin v') \<subseteq> set (stdin v)"
  by (auto simp: input_def Let_def split: list.splits)

lemma set_stdin_change_contact_body:
  "set (stdin (snd (change_contact_body args w))) \<subseteq> set (stdin w)"
  by (auto simp: change_contact_body_def Let_def stdin_print_available stdin_print
      split: option.splits sum.splits prod.splits dest!: set_stdin_input)

lemma set_stdin_change_contact:
  "set (stdin (snd (change_contact args w))) \<subseteq> set (stdin w)"
  using set_stdin_change_contact_body [of args w]
  by (auto simp: change_contact_def input_error_def split: prod.splits sum.splits)

lemma set_stdin_process_input:
  "set (stdin (snd (process_input command args w))) \<subseteq> set (stdin w)"
  using stdin_add_contact [of args w] set_stdin_change_contact [of args w]
    stdin_show_phone [of args w] stdin_show_all_contacts [of w]
  by (auto simp: process_input_def input_error_def process_input_body_def
      split: prod.splits sum.splits)

lemma main_loop_break_only:
  "fst (main_loop w) = None \<Longrightarrow> list_ex is_exit_line (stdin w)"
proof (induction w rule: main_loop.induct)
  case (1 w)
  show ?case
  proof (cases "stdin w")
    case Nil
    with "1.prems" show ?thesis
      by (subst (asm) main_loop.simps) (simp add: input_def Let_def)
  next
    case (Cons l ls)
    let ?w1 = "w\<lparr>stdout := stdout w @ [Prompted ''Enter a command: ''], stdin := ls\<rparr>"
    have read: "input ''Enter a command: '' w = (Inr l, ?w1)"
      using Cons by (simp add: input_def Let_def)
    show ?thesis
    proof (cases "parse_input l")
      case (Inl e)
      with "1.prems" read show ?thesis
        by (subst (asm) main_loop.simps) simp
    next
      case (Inr ca)
      obtain command args where ca: "ca = (command, args)" by (cases ca)
      show ?thesis
      proof (cases "command \<in> set [''close'', ''exit'']")
        case True
        with Inr ca have "is_exit_line l" by (simp add: is_exit_line_def)
        with Cons show ?thesis by simp
      next
        case False
        obtain out w2 where pi: "process_input command args ?w1 = (out, w2)"
          by (cases "process_input command args ?w1")
        from "1.prems" read Inr ca False pi have "fst (main_loop (print out w2)) = None"
          by (subst (asm) main_loop.simps) simp
        then have "list_ex is_exit_line (stdin (print out w2))"
          by (rule "1.IH" [OF read [symmetric] refl Inr ca [symmetric] False pi [symmetric]])
        moreover have "set (stdin w2) \<subseteq> set ls"
          using set_stdin_process_input [of command args ?w1] pi by simp
        ultimately show ?thesis
          using Cons by (auto simp: list_ex_iff stdin_print)
      qed
    qed
  qed
qed

lemma main_loop_close:
  assumes "stdin w = l # ls" and "parse_input l = Inr (command, args)"
    and "command \<in> set [''close'', ''exit'']"
  shows "main_loop w =
     (None, print ''Good bye!''
              (w\<lparr>stdout := stdout w @ [Prompted ''Enter a command: ''], stdin := ls\<rparr>))"
  using assms
  by (subst main_loop.simps) (simp add: input_def Let_def split: prod.splits)

lemma main_loop_blank:
  assumes "stdin w = l # ls" and "str_split l = []"
  shows "main_loop w =
     (Some IndexError, w\<lparr>stdout := stdout w @ [Prompted ''Enter a command: ''], stdin := ls\<rparr>)"
  using assms
  by (subst main_loop.simps) (simp add: input_def parse_input_def Let_def)

text \<open>
  X2. A line whose first token is neither \<open>close\<close> nor \<open>exit\<close> does not end the
  loop: whatever the handler did, \<open>process_input\<close> returns a string, the loop prints
  it once and goes on to the next read.
\<close>

theorem X2_main_loop_continues:
  assumes "stdin w = l # ls" and "parse_input l = Inr (command, args)"
    and "command \<notin> set [''close'', ''exit'']"
  shows "main_loop w =
     (let w1 = w\<lparr>stdout := stdout w @ [Prompted ''Enter a command: ''], stdin := ls\<rparr>;
          res = process_input command args w1
      in main_loop (print (fst res) (snd res)))"
  using assms
  by (subst main_loop.simps) (simp add: input_def Let_def split: prod.splits)

theorem X2_main_loop_continues_witness:
  "main_loop \<lparr>book = [], stdin = [''add bob 123'', ''close''], stdout = []\<rparr>
   = main_loop \<lparr>book = [], stdin = [''close''],
                 stdout = [Prompted ''Enter a command: '',
                           Printed ''Phone number must contain 10 digits.'']\<rparr>"
proof -
  let ?w = "\<lparr>book = [], stdin = [''add bob 123'', ''close''], stdout = []\<rparr>"
  let ?w1 = "\<lparr>book = [], stdin = [''close''], stdout = [Prompted ''Enter a command: '']\<rparr>"
  have inp: "stdin ?w = ''add bob 123'' # [''close'']" by simp
  have parsed: "parse_input ''add bob 123'' = Inr (''add'', [''bob'', ''123''])"
    by code_simp
  have cmd: "''add'' \<notin> set [''close'', ''exit'']" by simp
  have handled: "process_input ''add'' [''bob'', ''123''] ?w1
                 = (''Phone number must contain 10 digits.'', ?w1)"
    by code_simp
  show ?thesis
    using X2_main_loop_continues [OF inp parsed cmd] handled
    by (simp add: print_def)
qed

text \<open>
  X3. \<open>main\<close> returns through \<open>break\<close>, after "Good bye!", only if some line of
  the input has \<open>close\<close> or \<open>exit\<close> as its first token.
\<close>

theorem X3_break_only_on_close_or_exit:
  "fst (main lines) = None \<Longrightarrow> list_ex is_exit_line lines"
proof -
  assume a: "fst (main lines) = None"
  let ?w = "print ''Welcome to the assistant bot!'' \<lparr>book = [], stdin = lines, stdout = []\<rparr>"
  from a have "fst (main_loop ?w) = None"
    by (auto simp: main_def Let_def split: prod.splits option.splits)
  then have "list_ex is_exit_line (stdin ?w)"
    by (rule main_loop_break_only)
  then show ?thesis by (simp add: stdin_print)
qed

theorem X3_break_only_on_close_or_exit_witness:
  "fst (main [''hello'', ''EXIT now'', ''all'']) = None
   \<and> list_ex is_exit_line [''hello'', ''EXIT now'', ''all'']"
proof -
  have h: "fst (main [''hello'', ''EXIT now'', ''all'']) = None" by code_simp
  from h X3_break_only_on_close_or_exit [OF h] show ?thesis by blast
qed

end
